theory Spec2Isabelle
  imports Main
begin

section \<open>The enumerations of card.py\<close>

datatype CardTypes = STANDARD | JOKER | GUARANTEE

datatype CardSuitTypes = HEART | CLUB | SPADE | DIAMOND

datatype CardRankTypes =
  ACE | TWO | THREE | FOUR | FIVE | SIX | SEVEN | EIGHT | NINE | TEN | JACK | QUEEN | KING

text \<open>
  Python is dynamically typed: the constructor and the setters of \<open>Card\<close> accept any
  value. The values modelled are \<open>None\<close>, the members of the three enumerations, strings
  and integers. The enumerations derive from plain \<open>Enum\<close>, so a member is equal to
  itself only: \<open>CardTypes.STANDARD == "standard"\<close> and \<open>CardRankTypes.ACE == 1\<close> are
  both false, which is what equality on this datatype gives. (Objects whose class
  overrides \<open>__eq__\<close> are outside this universe.)
\<close>

datatype pyval =
  PyNone
  | CardType CardTypes
  | Suit CardSuitTypes
  | Rank CardRankTypes
  | PyStr string
  | PyInt int

text \<open>The \<open>.name\<close> of a member.\<close>

fun CardTypes_name :: "CardTypes \<Rightarrow> string" where
  "CardTypes_name STANDARD = ''STANDARD''"
| "CardTypes_name JOKER = ''JOKER''"
| "CardTypes_name GUARANTEE = ''GUARANTEE''"

fun CardSuitTypes_name :: "CardSuitTypes \<Rightarrow> string" where
  "CardSuitTypes_name HEART = ''HEART''"
| "CardSuitTypes_name CLUB = ''CLUB''"
| "CardSuitTypes_name SPADE = ''SPADE''"
| "CardSuitTypes_name DIAMOND = ''DIAMOND''"

fun CardRankTypes_name :: "CardRankTypes \<Rightarrow> string" where
  "CardRankTypes_name ACE = ''ACE''"
| "CardRankTypes_name TWO = ''TWO''"
| "CardRankTypes_name THREE = ''THREE''"
| "CardRankTypes_name FOUR = ''FOUR''"
| "CardRankTypes_name FIVE = ''FIVE''"
| "CardRankTypes_name SIX = ''SIX''"
| "CardRankTypes_name SEVEN = ''SEVEN''"
| "CardRankTypes_name EIGHT = ''EIGHT''"
| "CardRankTypes_name NINE = ''NINE''"
| "CardRankTypes_name TEN = ''TEN''"
| "CardRankTypes_name JACK = ''JACK''"
| "CardRankTypes_name QUEEN = ''QUEEN''"
| "CardRankTypes_name KING = ''KING''"

text \<open>The \<open>.value\<close> of a member.\<close>

fun CardTypes_value :: "CardTypes \<Rightarrow> string" where
  "CardTypes_value STANDARD = ''standard''"
| "CardTypes_value JOKER = ''joker''"
| "CardTypes_value GUARANTEE = ''guarantee''"

fun CardSuitTypes_value :: "CardSuitTypes \<Rightarrow> string" where
  "CardSuitTypes_value HEART = ''heart''"
| "CardSuitTypes_value CLUB = ''club''"
| "CardSuitTypes_value SPADE = ''spade''"
| "CardSuitTypes_value DIAMOND = ''diamond''"

fun CardRankTypes_value :: "CardRankTypes \<Rightarrow> int" where
  "CardRankTypes_value ACE = 1"
| "CardRankTypes_value TWO = 2"
| "CardRankTypes_value THREE = 3"
| "CardRankTypes_value FOUR = 4"
| "CardRankTypes_value FIVE = 5"
| "CardRankTypes_value SIX = 6"
| "CardRankTypes_value SEVEN = 7"
| "CardRankTypes_value EIGHT = 8"
| "CardRankTypes_value NINE = 9"
| "CardRankTypes_value TEN = 10"
| "CardRankTypes_value JACK = 11"
| "CardRankTypes_value QUEEN = 12"
| "CardRankTypes_value KING = 13"

section \<open>Errors and the state of a Card instance\<close>

text \<open>
  Every \<open>raise\<close> of the file raises \<open>ValueError\<close>; the argument records which
  \<open>raise\<close> statement it was (the f-string messages are not modelled).
  Reading an instance attribute that was never assigned raises \<open>AttributeError\<close>, and so
  does \<open>.name\<close> or \<open>.value\<close> on a value that is not an enumeration member.
\<close>

datatype raise_site =
  Invalid_card_type
  | Suit_missing
  | Suit_not_None
  | Invalid_suit
  | Rank_missing
  | Rank_not_None
  | Invalid_rank
  | Blank_card

datatype error = ValueError raise_site | AttributeError

text \<open>
  The instance attributes \<open>_card_type\<close>, \<open>_suit\<close> and \<open>_rank\<close>. \<open>None\<close> (of HOL) is an
  attribute that has not been assigned; Python's \<open>None\<close> is \<open>Some PyNone\<close>. The class-level
  names \<open>card_type\<close>, \<open>suit\<close> and \<open>rank\<close> are rebound to the properties further down the
  class body, so a fresh instance has none of the three attributes.
\<close>

record Card =
  attr_card_type :: "pyval option"
  attr_suit :: "pyval option"
  attr_rank :: "pyval option"

definition fresh :: Card where
  "fresh = \<lparr>attr_card_type = None, attr_suit = None, attr_rank = None\<rparr>"

text \<open>
  A method body is a function from the instance state to a result and the state it
  leaves behind; a \<open>raise\<close> leaves the state as it is at that moment.
\<close>

type_synonym 'a stmt = "Card \<Rightarrow> (error + 'a) \<times> Card"

definition raise :: "error \<Rightarrow> 'a stmt" where
  "raise e = (\<lambda>self. (Inl e, self))"

definition ret :: "'a \<Rightarrow> 'a stmt" where
  "ret x = (\<lambda>self. (Inr x, self))"

definition bind_stmt :: "'a stmt \<Rightarrow> ('a \<Rightarrow> 'b stmt) \<Rightarrow> 'b stmt" where
  "bind_stmt m f = (\<lambda>self. case m self of
      (Inl e, self') \<Rightarrow> (Inl e, self')
    | (Inr x, self') \<Rightarrow> f x self')"

definition seq :: "unit stmt \<Rightarrow> 'a stmt \<Rightarrow> 'a stmt" where
  "seq m n = bind_stmt m (\<lambda>_. n)"

definition if_then :: "bool \<Rightarrow> unit stmt \<Rightarrow> unit stmt" where
  "if_then b m = (if b then m else ret ())"

definition read_attr :: "(Card \<Rightarrow> pyval option) \<Rightarrow> pyval stmt" where
  "read_attr a = (\<lambda>self. case a self of
      None \<Rightarrow> (Inl AttributeError, self)
    | Some v \<Rightarrow> (Inr v, self))"

definition assign_card_type :: "pyval \<Rightarrow> unit stmt" where
  "assign_card_type v = (\<lambda>self. (Inr (), self\<lparr>attr_card_type := Some v\<rparr>))"

definition assign_suit :: "pyval \<Rightarrow> unit stmt" where
  "assign_suit v = (\<lambda>self. (Inr (), self\<lparr>attr_suit := Some v\<rparr>))"

definition assign_rank :: "pyval \<Rightarrow> unit stmt" where
  "assign_rank v = (\<lambda>self. (Inr (), self\<lparr>attr_rank := Some v\<rparr>))"

text \<open>
  \<open>x.name\<close>, and the text an f-string gives for \<open>x.value\<close> (the value of a rank is an
  integer, printed in decimal). Neither attribute exists on \<open>None\<close>, a string or an integer.
\<close>

fun CardRankTypes_value_text :: "CardRankTypes \<Rightarrow> string" where
  "CardRankTypes_value_text ACE = ''1''"
| "CardRankTypes_value_text TWO = ''2''"
| "CardRankTypes_value_text THREE = ''3''"
| "CardRankTypes_value_text FOUR = ''4''"
| "CardRankTypes_value_text FIVE = ''5''"
| "CardRankTypes_value_text SIX = ''6''"
| "CardRankTypes_value_text SEVEN = ''7''"
| "CardRankTypes_value_text EIGHT = ''8''"
| "CardRankTypes_value_text NINE = ''9''"
| "CardRankTypes_value_text TEN = ''10''"
| "CardRankTypes_value_text JACK = ''11''"
| "CardRankTypes_value_text QUEEN = ''12''"
| "CardRankTypes_value_text KING = ''13''"

fun name_of :: "pyval \<Rightarrow> string stmt" where
  "name_of (CardType t) = ret (CardTypes_name t)"
| "name_of (Suit s) = ret (CardSuitTypes_name s)"
| "name_of (Rank r) = ret (CardRankTypes_name r)"
| "name_of PyNone = raise AttributeError"
| "name_of (PyStr _) = raise AttributeError"
| "name_of (PyInt _) = raise AttributeError"

fun value_text_of :: "pyval \<Rightarrow> string stmt" where
  "value_text_of (CardType t) = ret (CardTypes_value t)"
| "value_text_of (Suit s) = ret (CardSuitTypes_value s)"
| "value_text_of (Rank r) = ret (CardRankTypes_value_text r)"
| "value_text_of PyNone = raise AttributeError"
| "value_text_of (PyStr _) = raise AttributeError"
| "value_text_of (PyInt _) = raise AttributeError"

section \<open>The class Card\<close>

definition ALLOWED_CARD_TYPES :: "pyval list" where
  "ALLOWED_CARD_TYPES = [CardType GUARANTEE, CardType JOKER, CardType STANDARD]"

definition ALLOWED_SUIT_TYPES :: "pyval list" where
  "ALLOWED_SUIT_TYPES = [Suit CLUB, Suit DIAMOND, Suit HEART, Suit SPADE]"

definition ALLOWED_RANK_TYPES :: "pyval list" where
  "ALLOWED_RANK_TYPES =
    [Rank ACE, Rank TWO, Rank THREE, Rank FOUR, Rank FIVE, Rank SIX, Rank SEVEN,
     Rank EIGHT, Rank NINE, Rank TEN, Rank JACK, Rank QUEEN, Rank KING]"

text \<open>The three property getters.\<close>

definition card_type_getter :: "pyval stmt" where
  "card_type_getter = read_attr attr_card_type"

definition suit_getter :: "pyval stmt" where
  "suit_getter = read_attr attr_suit"

definition rank_getter :: "pyval stmt" where
  "rank_getter = read_attr attr_rank"

text \<open>
  The three property setters, statement by statement. \<open>self.card_type\<close> inside a setter
  goes through the getter.
\<close>

definition card_type_setter :: "pyval \<Rightarrow> unit stmt" where
  "card_type_setter val =
    seq (if_then (val \<notin> set ALLOWED_CARD_TYPES) (raise (ValueError Invalid_card_type)))
   (seq (assign_card_type val)
        (if_then (val \<noteq> CardType STANDARD)
          (seq (assign_rank PyNone) (assign_suit PyNone))))"

definition suit_setter :: "pyval \<Rightarrow> unit stmt" where
  "suit_setter val =
    seq (bind_stmt card_type_getter (\<lambda>ct.
          if_then (ct = CardType STANDARD \<and> val = PyNone) (raise (ValueError Suit_missing))))
   (seq (bind_stmt card_type_getter (\<lambda>ct.
          if_then (ct \<noteq> CardType STANDARD \<and> val \<noteq> PyNone) (raise (ValueError Suit_not_None))))
   (seq (if_then (val \<notin> set ALLOWED_SUIT_TYPES) (raise (ValueError Invalid_suit)))
        (assign_suit val)))"

definition rank_setter :: "pyval \<Rightarrow> unit stmt" where
  "rank_setter val =
    seq (bind_stmt card_type_getter (\<lambda>ct.
          if_then (ct = CardType STANDARD \<and> val = PyNone) (raise (ValueError Rank_missing))))
   (seq (bind_stmt card_type_getter (\<lambda>ct.
          if_then (ct \<noteq> CardType STANDARD \<and> val \<noteq> PyNone) (raise (ValueError Rank_not_None))))
   (seq (if_then (val \<notin> set ALLOWED_RANK_TYPES) (raise (ValueError Invalid_rank)))
        (assign_rank val)))"

text \<open>\<open>__init__(self, suit, rank, card_type)\<close>: the type first, then the suit, then the rank.\<close>

definition Card_init :: "pyval \<Rightarrow> pyval \<Rightarrow> pyval \<Rightarrow> unit stmt" where
  "Card_init suit rank card_type =
    seq (card_type_setter card_type) (seq (suit_setter suit) (rank_setter rank))"

text \<open>
  The call \<open>Card(suit, rank, card_type)\<close>: \<open>__init__\<close> runs on a fresh instance, and the
  caller gets the instance only when \<open>__init__\<close> returns.
\<close>

definition Card_new :: "pyval \<Rightarrow> pyval \<Rightarrow> pyval \<Rightarrow> error + Card" where
  "Card_new suit rank card_type =
    (case Card_init suit rank card_type fresh of
       (Inl e, _) \<Rightarrow> Inl e
     | (Inr _, self) \<Rightarrow> Inr self)"

text \<open>
  \<open>__str__\<close>. The condition \<open>self.rank is None or self.suit is None\<close> reads the rank first
  and the suit only when the rank is not \<open>None\<close>; the message of the \<open>raise\<close> reads both.
\<close>

definition Card_str :: "string stmt" where
  "Card_str =
    bind_stmt card_type_getter (\<lambda>ct.
      if ct = CardType STANDARD then
        bind_stmt (bind_stmt rank_getter (\<lambda>r.
                     if r = PyNone then ret True
                     else bind_stmt suit_getter (\<lambda>s. ret (s = PyNone)))) (\<lambda>blank.
          if blank then
            bind_stmt rank_getter (\<lambda>_. bind_stmt suit_getter (\<lambda>_.
              raise (ValueError Blank_card)))
          else
            bind_stmt rank_getter (\<lambda>r. bind_stmt (name_of r) (\<lambda>rank_name.
            bind_stmt suit_getter (\<lambda>s. bind_stmt (value_text_of s) (\<lambda>suit_value.
              ret (rank_name @ '' of '' @ suit_value))))))
      else
        bind_stmt card_type_getter (\<lambda>ct'. value_text_of ct'))"

text \<open>What the caller of \<open>str(card)\<close> sees.\<close>

definition to_str :: "Card \<Rightarrow> error + string" where
  "to_str self = fst (Card_str self)"

section \<open>The error kinds of the specification\<close>

text \<open>
  The specification names two error kinds. Both are \<open>ValueError\<close> in the code:
  \<open>InvalidAttribute\<close> is one raised by a setter, \<open>InvalidState\<close> the one raised by
  \<open>__str__\<close>.
\<close>

fun InvalidAttribute :: "error \<Rightarrow> bool" where
  "InvalidAttribute (ValueError Blank_card) = False"
| "InvalidAttribute (ValueError _) = True"
| "InvalidAttribute AttributeError = False"

fun InvalidState :: "error \<Rightarrow> bool" where
  "InvalidState (ValueError Blank_card) = True"
| "InvalidState _ = False"

text \<open>A sequence of setter calls on an instance, each of which has to succeed.\<close>

datatype setter_call = Set_card_type pyval | Set_suit pyval | Set_rank pyval

fun call :: "setter_call \<Rightarrow> unit stmt" where
  "call (Set_card_type v) = card_type_setter v"
| "call (Set_suit v) = suit_setter v"
| "call (Set_rank v) = rank_setter v"

fun calls :: "setter_call list \<Rightarrow> Card \<Rightarrow> error + Card" where
  "calls [] self = Inr self"
| "calls (c # cs) self =
    (case call c self of
       (Inl e, _) \<Rightarrow> Inl e
     | (Inr _, self') \<Rightarrow> calls cs self')"

section \<open>Invariants\<close>

text \<open>
  An attribute that is assigned and holds one of the values of the list.
\<close>

definition recognized :: "pyval list \<Rightarrow> pyval option \<Rightarrow> bool" where
  "recognized allowed a = (case a of None \<Rightarrow> False | Some v \<Rightarrow> v \<in> set allowed)"

text \<open>
  The invariant in the words of the specification: the card type is STANDARD exactly when
  suit and rank are both valid members, and it is not STANDARD exactly when both are
  \<open>None\<close>.
\<close>

definition spec_invariant :: "Card \<Rightarrow> bool" where
  "spec_invariant self =
    (((attr_card_type self = Some (CardType STANDARD)) =
        (recognized ALLOWED_SUIT_TYPES (attr_suit self) \<and>
         recognized ALLOWED_RANK_TYPES (attr_rank self)))
     \<and> ((attr_card_type self \<noteq> Some (CardType STANDARD)) =
        (attr_suit self = Some PyNone \<and> attr_rank self = Some PyNone)))"

text \<open>
  The invariant the setters keep: the three attributes are assigned, the card type is a
  member, suit and rank are each \<open>None\<close> or a member, and a card that is not STANDARD has
  neither suit nor rank. A STANDARD card may lack its suit, its rank or both (the blank
  standard card of the \<open>card_type\<close> setter's docstring).
\<close>

definition card_invariant :: "Card \<Rightarrow> bool" where
  "card_invariant self =
    (recognized ALLOWED_CARD_TYPES (attr_card_type self)
     \<and> (attr_suit self = Some PyNone \<or> recognized ALLOWED_SUIT_TYPES (attr_suit self))
     \<and> (attr_rank self = Some PyNone \<or> recognized ALLOWED_RANK_TYPES (attr_rank self))
     \<and> (attr_card_type self \<noteq> Some (CardType STANDARD) \<longrightarrow>
          attr_suit self = Some PyNone \<and> attr_rank self = Some PyNone))"

text \<open>
  A STANDARD card with a suit and a rank, and the setter calls that change the card type
  away from STANDARD.
\<close>

definition complete :: "Card \<Rightarrow> bool" where
  "complete self =
    (attr_card_type self = Some (CardType STANDARD)
     \<and> recognized ALLOWED_SUIT_TYPES (attr_suit self)
     \<and> recognized ALLOWED_RANK_TYPES (attr_rank self))"

fun leaves_STANDARD :: "setter_call \<Rightarrow> bool" where
  "leaves_STANDARD (Set_card_type v) = (v \<noteq> CardType STANDARD)"
| "leaves_STANDARD (Set_suit v) = False"
| "leaves_STANDARD (Set_rank v) = False"

section \<open>The setters in closed form\<close>

lemmas stmt_defs = raise_def ret_def bind_stmt_def seq_def if_then_def read_attr_def
  assign_card_type_def assign_suit_def assign_rank_def
  card_type_getter_def suit_getter_def rank_getter_def

lemmas allowed_defs = ALLOWED_CARD_TYPES_def ALLOWED_SUIT_TYPES_def ALLOWED_RANK_TYPES_def

lemma allowed_card_type_iff: "v \<in> set ALLOWED_CARD_TYPES \<longleftrightarrow> (\<exists>t. v = CardType t)"
proof
  assume "v \<in> set ALLOWED_CARD_TYPES" then show "\<exists>t. v = CardType t"
    by (auto simp: ALLOWED_CARD_TYPES_def)
next
  assume "\<exists>t. v = CardType t"
  then obtain t where "v = CardType t" by blast
  then show "v \<in> set ALLOWED_CARD_TYPES" by (cases t) (simp_all add: ALLOWED_CARD_TYPES_def)
qed

lemma allowed_suit_iff: "v \<in> set ALLOWED_SUIT_TYPES \<longleftrightarrow> (\<exists>s. v = Suit s)"
proof
  assume "v \<in> set ALLOWED_SUIT_TYPES" then show "\<exists>s. v = Suit s"
    by (auto simp: ALLOWED_SUIT_TYPES_def)
next
  assume "\<exists>s. v = Suit s"
  then obtain s where "v = Suit s" by blast
  then show "v \<in> set ALLOWED_SUIT_TYPES" by (cases s) (simp_all add: ALLOWED_SUIT_TYPES_def)
qed

lemma allowed_rank_iff: "v \<in> set ALLOWED_RANK_TYPES \<longleftrightarrow> (\<exists>r. v = Rank r)"
proof
  assume "v \<in> set ALLOWED_RANK_TYPES" then show "\<exists>r. v = Rank r"
    by (auto simp: ALLOWED_RANK_TYPES_def)
next
  assume "\<exists>r. v = Rank r"
  then obtain r where "v = Rank r" by blast
  then show "v \<in> set ALLOWED_RANK_TYPES" by (cases r) (simp_all add: ALLOWED_RANK_TYPES_def)
qed

lemma card_type_setter_eq:
  "card_type_setter val self =
    (if val \<notin> set ALLOWED_CARD_TYPES then (Inl (ValueError Invalid_card_type), self)
     else if val \<noteq> CardType STANDARD
       then (Inr (), self\<lparr>attr_card_type := Some val, attr_rank := Some PyNone,
                           attr_suit := Some PyNone\<rparr>)
       else (Inr (), self\<lparr>attr_card_type := Some val\<rparr>))"
  by (simp add: card_type_setter_def stmt_defs)

lemma suit_setter_unset:
  "attr_card_type self = None \<Longrightarrow> suit_setter val self = (Inl AttributeError, self)"
  by (simp add: suit_setter_def stmt_defs)

lemma suit_setter_eq:
  "attr_card_type self = Some ct \<Longrightarrow> suit_setter val self =
    (if ct = CardType STANDARD \<and> val = PyNone then (Inl (ValueError Suit_missing), self)
     else if ct \<noteq> CardType STANDARD \<and> val \<noteq> PyNone then (Inl (ValueError Suit_not_None), self)
     else if val \<notin> set ALLOWED_SUIT_TYPES then (Inl (ValueError Invalid_suit), self)
     else (Inr (), self\<lparr>attr_suit := Some val\<rparr>))"
  by (simp add: suit_setter_def stmt_defs)

lemma rank_setter_unset:
  "attr_card_type self = None \<Longrightarrow> rank_setter val self = (Inl AttributeError, self)"
  by (simp add: rank_setter_def stmt_defs)

lemma rank_setter_eq:
  "attr_card_type self = Some ct \<Longrightarrow> rank_setter val self =
    (if ct = CardType STANDARD \<and> val = PyNone then (Inl (ValueError Rank_missing), self)
     else if ct \<noteq> CardType STANDARD \<and> val \<noteq> PyNone then (Inl (ValueError Rank_not_None), self)
     else if val \<notin> set ALLOWED_RANK_TYPES then (Inl (ValueError Invalid_rank), self)
     else (Inr (), self\<lparr>attr_rank := Some val\<rparr>))"
  by (simp add: rank_setter_def stmt_defs)

text \<open>
  What a successful construction returns, and how a failed one fails.
\<close>

lemma Card_new_Inr:
  "Card_new s r t = Inr c \<longleftrightarrow>
    (t = CardType STANDARD \<and> s \<in> set ALLOWED_SUIT_TYPES \<and> r \<in> set ALLOWED_RANK_TYPES
     \<and> c = \<lparr>attr_card_type = Some t, attr_suit = Some s, attr_rank = Some r\<rparr>)"
  apply (simp add: Card_new_def Card_init_def seq_def bind_stmt_def card_type_setter_eq fresh_def
       suit_setter_eq rank_setter_eq split: prod.splits sum.splits if_splits)
  apply (auto simp: allowed_defs)
  done

lemma Card_new_Inl: "Card_new s r t = Inl e \<Longrightarrow> InvalidAttribute e"
  by (auto simp: Card_new_def Card_init_def seq_def bind_stmt_def card_type_setter_eq fresh_def
       suit_setter_eq rank_setter_eq split: prod.splits sum.splits if_splits)

section \<open>Preservation of the invariants\<close>

lemma call_preserves_invariant:
  assumes "card_invariant self" and "call k self = (Inr u, self')"
  shows "card_invariant self'"
proof -
  from assms(1) obtain ct where ct: "attr_card_type self = Some ct"
    by (auto simp: card_invariant_def recognized_def split: option.splits)
  show ?thesis
  proof (cases k)
    case (Set_card_type v)
    with assms show ?thesis
      by (auto simp: card_type_setter_eq card_invariant_def recognized_def split: if_splits)
  next
    case (Set_suit v)
    with assms ct show ?thesis
      by (auto simp: suit_setter_eq card_invariant_def recognized_def split: if_splits)
  next
    case (Set_rank v)
    with assms ct show ?thesis
      by (auto simp: rank_setter_eq card_invariant_def recognized_def split: if_splits)
  qed
qed

lemma calls_preserve_invariant:
  "card_invariant self \<Longrightarrow> calls cs self = Inr self' \<Longrightarrow> card_invariant self'"
proof (induction cs arbitrary: self)
  case Nil
  then show ?case by simp
next
  case (Cons k cs)
  obtain res mid where step: "call k self = (res, mid)" by (cases "call k self")
  with Cons.prems(2) obtain u where "res = Inr u" and rest: "calls cs mid = Inr self'"
    by (cases res) auto
  with step Cons.prems(1) have "card_invariant mid"
    using call_preserves_invariant by blast
  then show ?case using rest by (rule Cons.IH)
qed

lemma Card_new_invariant: "Card_new s r t = Inr c \<Longrightarrow> card_invariant c"
  by (auto simp: Card_new_Inr card_invariant_def recognized_def allowed_defs)

lemma call_preserves_complete:
  assumes "complete self" and "call k self = (Inr u, self')" and "\<not> leaves_STANDARD k"
  shows "complete self'"
proof (cases k)
  case (Set_card_type v)
  with assms show ?thesis
    by (auto simp: card_type_setter_eq complete_def split: if_splits)
next
  case (Set_suit v)
  with assms show ?thesis
    by (auto simp: suit_setter_eq complete_def recognized_def split: if_splits)
next
  case (Set_rank v)
  with assms show ?thesis
    by (auto simp: rank_setter_eq complete_def recognized_def split: if_splits)
qed

lemma calls_preserve_complete:
  "complete self \<Longrightarrow> calls cs self = Inr self' \<Longrightarrow> \<not> list_ex leaves_STANDARD cs
    \<Longrightarrow> complete self'"
proof (induction cs arbitrary: self)
  case Nil
  then show ?case by simp
next
  case (Cons k cs)
  obtain res mid where step: "call k self = (res, mid)" by (cases "call k self")
  with Cons.prems(2) obtain u where "res = Inr u" and rest: "calls cs mid = Inr self'"
    by (cases res) auto
  with step Cons.prems have "complete mid"
    using call_preserves_complete by auto
  with rest Cons.prems(3) show ?case using Cons.IH by simp
qed

lemma Card_new_complete: "Card_new s r t = Inr c \<Longrightarrow> complete c"
  by (auto simp: Card_new_Inr complete_def recognized_def)

lemma complete_spec_invariant: "complete self \<Longrightarrow> spec_invariant self"
  by (auto simp: complete_def spec_invariant_def recognized_def allowed_defs)

section \<open>Rendering\<close>

lemma to_str_blank:
  assumes "attr_card_type self = Some (CardType STANDARD)"
    and "attr_suit self = Some sv" and "attr_rank self = Some rv"
    and "sv = PyNone \<or> rv = PyNone"
  shows "to_str self = Inl (ValueError Blank_card)"
  using assms by (auto simp: to_str_def Card_str_def stmt_defs)

lemma to_str_complete:
  assumes "attr_card_type self = Some (CardType STANDARD)"
    and "attr_suit self = Some (Suit sv)" and "attr_rank self = Some (Rank rv)"
  shows "to_str self = Inr (CardRankTypes_name rv @ '' of '' @ CardSuitTypes_value sv)"
  using assms by (simp add: to_str_def Card_str_def stmt_defs)

lemma to_str_nonstandard:
  assumes "attr_card_type self = Some (CardType t)" and "t \<noteq> STANDARD"
  shows "to_str self = Inr (CardTypes_value t)"
  using assms by (simp add: to_str_def Card_str_def stmt_defs)

lemma to_str_invariant:
  assumes "card_invariant self"
  shows "to_str self = Inl e \<longleftrightarrow>
    e = ValueError Blank_card \<and> attr_card_type self = Some (CardType STANDARD)
      \<and> (attr_suit self = Some PyNone \<or> attr_rank self = Some PyNone)"
proof -
  from assms obtain t where t: "attr_card_type self = Some (CardType t)"
    by (auto simp: card_invariant_def recognized_def allowed_card_type_iff split: option.splits)
  show ?thesis
  proof (cases "t = STANDARD")
    case False
    with t show ?thesis by (simp add: to_str_nonstandard)
  next
    case True
    from assms obtain sv rv where sr: "attr_suit self = Some sv" "attr_rank self = Some rv"
      by (auto simp: card_invariant_def recognized_def split: option.splits)
    show ?thesis
    proof (cases "sv = PyNone \<or> rv = PyNone")
      case True
      with t \<open>t = STANDARD\<close> sr have "to_str self = Inl (ValueError Blank_card)"
        by (simp add: to_str_blank)
      with True t \<open>t = STANDARD\<close> sr show ?thesis by auto
    next
      case False
      with assms sr obtain s r where "sv = Suit s" "rv = Rank r"
        by (auto simp: card_invariant_def recognized_def allowed_suit_iff allowed_rank_iff)
      with t \<open>t = STANDARD\<close> sr have "to_str self = Inr (CardRankTypes_name r @ '' of '' @ CardSuitTypes_value s)"
        by (simp add: to_str_complete)
      with False sr show ?thesis by auto
    qed
  qed
qed

lemma InvalidState_iff: "InvalidState e \<longleftrightarrow> e = ValueError Blank_card"
  by (cases e rule: InvalidState.cases) simp_all

lemma setter_not_InvalidState: "fst (call k self) = Inl e \<Longrightarrow> \<not> InvalidState e"
proof (cases "attr_card_type self")
  case None
  assume "fst (call k self) = Inl e"
  with None show ?thesis
    by (cases k) (auto simp: card_type_setter_eq suit_setter_unset rank_setter_unset split: if_splits)
next
  case (Some ct)
  assume "fst (call k self) = Inl e"
  with Some show ?thesis
    by (cases k) (auto simp: card_type_setter_eq suit_setter_eq rank_setter_eq split: if_splits)
qed

section \<open>The claims\<close>

text \<open>
  Claim C1 says that constructing a JOKER or a GUARANTEE card with no suit and no rank
  succeeds and renders as "joker" or "guarantee". In the code the construction raises
  \<open>ValueError\<close>: after the card type is set, \<open>self.suit = None\<close> passes the two checks on the
  card type and then fails the membership test, since \<open>None\<close> is not in
  \<open>ALLOWED_SUIT_TYPES\<close>.
\<close>

theorem Card_new_nonstandard_raises:
  "Card_new PyNone PyNone (CardType JOKER) = Inl (ValueError Invalid_suit)
   \<and> Card_new PyNone PyNone (CardType GUARANTEE) = Inl (ValueError Invalid_suit)"
  by (simp add: Card_new_def Card_init_def seq_def bind_stmt_def card_type_setter_eq fresh_def
       suit_setter_eq allowed_defs)

text \<open>
  Claim C2, as stated, fails: a card constructed as the ace of hearts, changed to JOKER and
  changed back to STANDARD is a STANDARD card whose suit and rank are both \<open>None\<close>.
\<close>

theorem spec_invariant_counterexample:
  "Card_new (Suit HEART) (Rank ACE) (CardType STANDARD) =
     Inr \<lparr>attr_card_type = Some (CardType STANDARD), attr_suit = Some (Suit HEART),
          attr_rank = Some (Rank ACE)\<rparr>
   \<and> calls [Set_card_type (CardType JOKER), Set_card_type (CardType STANDARD)]
        \<lparr>attr_card_type = Some (CardType STANDARD), attr_suit = Some (Suit HEART),
         attr_rank = Some (Rank ACE)\<rparr> =
     Inr \<lparr>attr_card_type = Some (CardType STANDARD), attr_suit = Some PyNone,
          attr_rank = Some PyNone\<rparr>
   \<and> \<not> spec_invariant \<lparr>attr_card_type = Some (CardType STANDARD), attr_suit = Some PyNone,
          attr_rank = Some PyNone\<rparr>"
  by (simp add: Card_new_Inr card_type_setter_eq allowed_defs spec_invariant_def recognized_def)

text \<open>
  Claim C2, amended: every card reached from a successful construction by successful setter
  calls has a recognized card type, a suit and a rank that are each \<open>None\<close> or a valid
  member, and neither suit nor rank when its type is not STANDARD; and as long as no call
  has changed the type away from STANDARD, the invariant of the specification holds in
  full.
\<close>

theorem reachable_card_invariant:
  assumes "Card_new s r t = Inr c0" and "calls cs c0 = Inr c"
  shows "card_invariant c \<and> (\<not> list_ex leaves_STANDARD cs \<longrightarrow> spec_invariant c)"
proof -
  from assms have "card_invariant c"
    using Card_new_invariant calls_preserve_invariant by blast
  moreover have "spec_invariant c" if "\<not> list_ex leaves_STANDARD cs"
    using assms that Card_new_complete calls_preserve_complete complete_spec_invariant by blast
  ultimately show ?thesis by blast
qed

theorem reachable_card_invariant_witness:
  "Card_new (Suit HEART) (Rank ACE) (CardType STANDARD) =
     Inr \<lparr>attr_card_type = Some (CardType STANDARD), attr_suit = Some (Suit HEART),
          attr_rank = Some (Rank ACE)\<rparr>
   \<and> calls [Set_card_type (CardType JOKER), Set_card_type (CardType STANDARD),
             Set_rank (Rank TEN)]
        \<lparr>attr_card_type = Some (CardType STANDARD), attr_suit = Some (Suit HEART),
         attr_rank = Some (Rank ACE)\<rparr> =
     Inr \<lparr>attr_card_type = Some (CardType STANDARD), attr_suit = Some PyNone,
          attr_rank = Some (Rank TEN)\<rparr>
   \<and> card_invariant \<lparr>attr_card_type = Some (CardType STANDARD), attr_suit = Some PyNone,
          attr_rank = Some (Rank TEN)\<rparr>
   \<and> calls [Set_suit (Suit DIAMOND)]
        \<lparr>attr_card_type = Some (CardType STANDARD), attr_suit = Some (Suit HEART),
         attr_rank = Some (Rank ACE)\<rparr> =
     Inr \<lparr>attr_card_type = Some (CardType STANDARD), attr_suit = Some (Suit DIAMOND),
          attr_rank = Some (Rank ACE)\<rparr>
   \<and> \<not> list_ex leaves_STANDARD [Set_suit (Suit DIAMOND)]
   \<and> spec_invariant \<lparr>attr_card_type = Some (CardType STANDARD),
          attr_suit = Some (Suit DIAMOND), attr_rank = Some (Rank ACE)\<rparr>"
proof -
  have new: "Card_new (Suit HEART) (Rank ACE) (CardType STANDARD) =
     Inr \<lparr>attr_card_type = Some (CardType STANDARD), attr_suit = Some (Suit HEART),
          attr_rank = Some (Rank ACE)\<rparr>"
    by (simp add: Card_new_Inr allowed_defs)
  have run: "calls [Set_card_type (CardType JOKER), Set_card_type (CardType STANDARD),
             Set_rank (Rank TEN)]
        \<lparr>attr_card_type = Some (CardType STANDARD), attr_suit = Some (Suit HEART),
         attr_rank = Some (Rank ACE)\<rparr> =
     Inr \<lparr>attr_card_type = Some (CardType STANDARD), attr_suit = Some PyNone,
          attr_rank = Some (Rank TEN)\<rparr>"
    by (simp add: card_type_setter_eq rank_setter_eq allowed_defs)
  have run': "calls [Set_suit (Suit DIAMOND)]
        \<lparr>attr_card_type = Some (CardType STANDARD), attr_suit = Some (Suit HEART),
         attr_rank = Some (Rank ACE)\<rparr> =
     Inr \<lparr>attr_card_type = Some (CardType STANDARD), attr_suit = Some (Suit DIAMOND),
          attr_rank = Some (Rank ACE)\<rparr>"
    by (simp add: suit_setter_eq allowed_defs)
  have stay: "\<not> list_ex leaves_STANDARD [Set_suit (Suit DIAMOND)]" by simp
  from reachable_card_invariant [OF new run] reachable_card_invariant [OF new run'] stay
  have "card_invariant \<lparr>attr_card_type = Some (CardType STANDARD), attr_suit = Some PyNone,
          attr_rank = Some (Rank TEN)\<rparr>
      \<and> spec_invariant \<lparr>attr_card_type = Some (CardType STANDARD),
          attr_suit = Some (Suit DIAMOND), attr_rank = Some (Rank ACE)\<rparr>"
    by blast
  with new run run' stay show ?thesis by blast
qed

text \<open>
  Claim C3, as stated, fails: the king of spades, changed to GUARANTEE and back to
  STANDARD, is a blank STANDARD card, reached by successful public calls only, and
  rendering it raises the error of \<open>__str__\<close>.
\<close>

theorem blank_card_counterexample:
  "Card_new (Suit SPADE) (Rank KING) (CardType STANDARD) =
     Inr \<lparr>attr_card_type = Some (CardType STANDARD), attr_suit = Some (Suit SPADE),
          attr_rank = Some (Rank KING)\<rparr>
   \<and> calls [Set_card_type (CardType GUARANTEE), Set_card_type (CardType STANDARD)]
        \<lparr>attr_card_type = Some (CardType STANDARD), attr_suit = Some (Suit SPADE),
         attr_rank = Some (Rank KING)\<rparr> =
     Inr \<lparr>attr_card_type = Some (CardType STANDARD), attr_suit = Some PyNone,
          attr_rank = Some PyNone\<rparr>
   \<and> to_str \<lparr>attr_card_type = Some (CardType STANDARD), attr_suit = Some PyNone,
          attr_rank = Some PyNone\<rparr> = Inl (ValueError Blank_card)
   \<and> InvalidState (ValueError Blank_card)"
  by (simp add: Card_new_Inr card_type_setter_eq allowed_defs to_str_blank)

text \<open>
  Claim C3, amended: on a card reached from a successful construction by successful setter
  calls, rendering fails exactly when the card is STANDARD and its suit or its rank is
  \<open>None\<close>, and then with InvalidState; no setter and no construction raises InvalidState;
  and rendering succeeds on every such card as long as no call has changed the type away
  from STANDARD (a blank STANDARD card is reached only by changing a non-STANDARD card
  back to STANDARD).
\<close>

theorem InvalidState_only_on_blank:
  assumes "Card_new s r t = Inr c0" and "calls cs c0 = Inr c"
  shows "(to_str c = Inl e \<longleftrightarrow>
            InvalidState e \<and> attr_card_type c = Some (CardType STANDARD)
            \<and> (attr_suit c = Some PyNone \<or> attr_rank c = Some PyNone))
       \<and> (\<not> list_ex leaves_STANDARD cs \<longrightarrow> (\<exists>text. to_str c = Inr text))
       \<and> (\<forall>k self e'. fst (call k self) = Inl e' \<longrightarrow> \<not> InvalidState e')
       \<and> (\<forall>s' r' t' e'. Card_new s' r' t' = Inl e' \<longrightarrow> \<not> InvalidState e')"
proof -
  from assms have inv: "card_invariant c" using Card_new_invariant calls_preserve_invariant by blast
  then have a: "to_str c = Inl e \<longleftrightarrow>
            InvalidState e \<and> attr_card_type c = Some (CardType STANDARD)
            \<and> (attr_suit c = Some PyNone \<or> attr_rank c = Some PyNone)"
    by (simp add: to_str_invariant InvalidState_iff)
  have b: "\<exists>text. to_str c = Inr text" if "\<not> list_ex leaves_STANDARD cs"
  proof -
    from assms that have "complete c" using Card_new_complete calls_preserve_complete by blast
    then obtain sv rv where "attr_card_type c = Some (CardType STANDARD)"
      "attr_suit c = Some (Suit sv)" "attr_rank c = Some (Rank rv)"
      by (auto simp: complete_def recognized_def allowed_suit_iff allowed_rank_iff split: option.splits)
    then show ?thesis by (simp add: to_str_complete)
  qed
  have c: "\<forall>k self e'. fst (call k self) = Inl e' \<longrightarrow> \<not> InvalidState e'"
    using setter_not_InvalidState by blast
  have d: "\<forall>s' r' t' e'. Card_new s' r' t' = Inl e' \<longrightarrow> \<not> InvalidState e'"
  proof (intro allI impI)
    fix s' r' t' e' assume "Card_new s' r' t' = Inl e'"
    then have "InvalidAttribute e'" by (rule Card_new_Inl)
    then show "\<not> InvalidState e'" by (auto simp: InvalidState_iff)
  qed
  from a b c d show ?thesis by blast
qed

theorem InvalidState_only_on_blank_witness:
  "Card_new (Suit SPADE) (Rank KING) (CardType STANDARD) =
     Inr \<lparr>attr_card_type = Some (CardType STANDARD), attr_suit = Some (Suit SPADE),
          attr_rank = Some (Rank KING)\<rparr>
   \<and> calls [Set_suit (Suit CLUB), Set_card_type (CardType STANDARD), Set_rank (Rank TWO)]
        \<lparr>attr_card_type = Some (CardType STANDARD), attr_suit = Some (Suit SPADE),
         attr_rank = Some (Rank KING)\<rparr> =
     Inr \<lparr>attr_card_type = Some (CardType STANDARD), attr_suit = Some (Suit CLUB),
          attr_rank = Some (Rank TWO)\<rparr>
   \<and> \<not> list_ex leaves_STANDARD
          [Set_suit (Suit CLUB), Set_card_type (CardType STANDARD), Set_rank (Rank TWO)]
   \<and> (\<exists>text. to_str \<lparr>attr_card_type = Some (CardType STANDARD), attr_suit = Some (Suit CLUB),
          attr_rank = Some (Rank TWO)\<rparr> = Inr text)
   \<and> to_str \<lparr>attr_card_type = Some (CardType STANDARD), attr_suit = Some (Suit CLUB),
          attr_rank = Some (Rank TWO)\<rparr> \<noteq> Inl (ValueError Blank_card)
   \<and> fst (call (Set_suit PyNone)
        \<lparr>attr_card_type = Some (CardType STANDARD), attr_suit = Some (Suit SPADE),
         attr_rank = Some (Rank KING)\<rparr>) = Inl (ValueError Suit_missing)
   \<and> \<not> InvalidState (ValueError Suit_missing)
   \<and> Card_new PyNone PyNone (CardType STANDARD) = Inl (ValueError Suit_missing)"
proof -
  have new: "Card_new (Suit SPADE) (Rank KING) (CardType STANDARD) =
     Inr \<lparr>attr_card_type = Some (CardType STANDARD), attr_suit = Some (Suit SPADE),
          attr_rank = Some (Rank KING)\<rparr>"
    by (simp add: Card_new_Inr allowed_defs)
  have run: "calls [Set_suit (Suit CLUB), Set_card_type (CardType STANDARD), Set_rank (Rank TWO)]
        \<lparr>attr_card_type = Some (CardType STANDARD), attr_suit = Some (Suit SPADE),
         attr_rank = Some (Rank KING)\<rparr> =
     Inr \<lparr>attr_card_type = Some (CardType STANDARD), attr_suit = Some (Suit CLUB),
          attr_rank = Some (Rank TWO)\<rparr>"
    by (simp add: card_type_setter_eq suit_setter_eq rank_setter_eq allowed_defs)
  have stay: "\<not> list_ex leaves_STANDARD
          [Set_suit (Suit CLUB), Set_card_type (CardType STANDARD), Set_rank (Rank TWO)]"
    by simp
  have fails: "fst (call (Set_suit PyNone)
        \<lparr>attr_card_type = Some (CardType STANDARD), attr_suit = Some (Suit SPADE),
         attr_rank = Some (Rank KING)\<rparr>) = Inl (ValueError Suit_missing)"
    by (simp add: suit_setter_eq)
  have refused: "Card_new PyNone PyNone (CardType STANDARD) = Inl (ValueError Suit_missing)"
    by (simp add: Card_new_def Card_init_def seq_def bind_stmt_def card_type_setter_eq fresh_def
         suit_setter_eq allowed_defs)
  note inst = InvalidState_only_on_blank [OF new run, of "ValueError Blank_card"]
  from inst stay have "\<exists>text. to_str \<lparr>attr_card_type = Some (CardType STANDARD),
      attr_suit = Some (Suit CLUB), attr_rank = Some (Rank TWO)\<rparr> = Inr text"
    by blast
  moreover from inst have "to_str \<lparr>attr_card_type = Some (CardType STANDARD),
      attr_suit = Some (Suit CLUB), attr_rank = Some (Rank TWO)\<rparr> \<noteq> Inl (ValueError Blank_card)"
    by simp
  moreover from inst fails have "\<not> InvalidState (ValueError Suit_missing)"
    by blast
  ultimately show ?thesis using new run stay fails refused by blast
qed

text \<open>
  Claim C4: for every suit and every rank, constructing the STANDARD card succeeds and
  the card renders as the name of the rank, " of ", and the value of the suit; the ace of
  hearts renders as "ACE of heart" and the king of spades as "KING of spade".
\<close>

theorem standard_display:
  "Card_new (Suit s) (Rank r) (CardType STANDARD) =
     Inr \<lparr>attr_card_type = Some (CardType STANDARD), attr_suit = Some (Suit s),
          attr_rank = Some (Rank r)\<rparr>
   \<and> to_str \<lparr>attr_card_type = Some (CardType STANDARD), attr_suit = Some (Suit s),
          attr_rank = Some (Rank r)\<rparr> =
     Inr (CardRankTypes_name r @ '' of '' @ CardSuitTypes_value s)
   \<and> to_str \<lparr>attr_card_type = Some (CardType STANDARD), attr_suit = Some (Suit HEART),
          attr_rank = Some (Rank ACE)\<rparr> = Inr ''ACE of heart''
   \<and> to_str \<lparr>attr_card_type = Some (CardType STANDARD), attr_suit = Some (Suit SPADE),
          attr_rank = Some (Rank KING)\<rparr> = Inr ''KING of spade''"
proof -
  have "Suit s \<in> set ALLOWED_SUIT_TYPES" "Rank r \<in> set ALLOWED_RANK_TYPES"
    by (auto simp: allowed_suit_iff allowed_rank_iff)
  then show ?thesis by (simp add: Card_new_Inr to_str_complete)
qed

text \<open>
  Claim C5 lets the suit and rank setters fail on a card that is not STANDARD only for a
  value that is not \<open>None\<close>: there \<open>None\<close> is the one value a card without suit and rank
  takes (the message of the second \<open>raise\<close> says the suit "needs to be None for a
  non-standard card"). In the code the setters refuse it: on the JOKER and the GUARANTEE
  card made from the ace of hearts by the \<open>card_type\<close> setter, \<open>card.suit = None\<close> and
  \<open>card.rank = None\<close> pass the two checks on the card type and raise at the membership
  test, since \<open>None\<close> is in neither list. The card is left as it was.
\<close>

theorem setters_refuse_None_on_nonstandard:
  "Card_new (Suit HEART) (Rank ACE) (CardType STANDARD) =
     Inr \<lparr>attr_card_type = Some (CardType STANDARD), attr_suit = Some (Suit HEART),
          attr_rank = Some (Rank ACE)\<rparr>
   \<and> calls [Set_card_type (CardType JOKER)]
        \<lparr>attr_card_type = Some (CardType STANDARD), attr_suit = Some (Suit HEART),
         attr_rank = Some (Rank ACE)\<rparr> =
     Inr \<lparr>attr_card_type = Some (CardType JOKER), attr_suit = Some PyNone,
          attr_rank = Some PyNone\<rparr>
   \<and> suit_setter PyNone \<lparr>attr_card_type = Some (CardType JOKER), attr_suit = Some PyNone,
          attr_rank = Some PyNone\<rparr> =
     (Inl (ValueError Invalid_suit),
      \<lparr>attr_card_type = Some (CardType JOKER), attr_suit = Some PyNone,
       attr_rank = Some PyNone\<rparr>)
   \<and> rank_setter PyNone \<lparr>attr_card_type = Some (CardType JOKER), attr_suit = Some PyNone,
          attr_rank = Some PyNone\<rparr> =
     (Inl (ValueError Invalid_rank),
      \<lparr>attr_card_type = Some (CardType JOKER), attr_suit = Some PyNone,
       attr_rank = Some PyNone\<rparr>)
   \<and> calls [Set_card_type (CardType GUARANTEE)]
        \<lparr>attr_card_type = Some (CardType STANDARD), attr_suit = Some (Suit HEART),
         attr_rank = Some (Rank ACE)\<rparr> =
     Inr \<lparr>attr_card_type = Some (CardType GUARANTEE), attr_suit = Some PyNone,
          attr_rank = Some PyNone\<rparr>
   \<and> suit_setter PyNone \<lparr>attr_card_type = Some (CardType GUARANTEE),
          attr_suit = Some PyNone, attr_rank = Some PyNone\<rparr> =
     (Inl (ValueError Invalid_suit),
      \<lparr>attr_card_type = Some (CardType GUARANTEE), attr_suit = Some PyNone,
       attr_rank = Some PyNone\<rparr>)
   \<and> rank_setter PyNone \<lparr>attr_card_type = Some (CardType GUARANTEE),
          attr_suit = Some PyNone, attr_rank = Some PyNone\<rparr> =
     (Inl (ValueError Invalid_rank),
      \<lparr>attr_card_type = Some (CardType GUARANTEE), attr_suit = Some PyNone,
       attr_rank = Some PyNone\<rparr>)
   \<and> InvalidAttribute (ValueError Invalid_suit)
   \<and> InvalidAttribute (ValueError Invalid_rank)"
  by (simp add: Card_new_Inr card_type_setter_eq suit_setter_eq rank_setter_eq allowed_defs)

text \<open>
  Claim C6: setting the card type to a member other than STANDARD succeeds on every card,
  stores the new type and sets suit and rank to \<open>None\<close>; the ace of hearts set to JOKER has
  neither suit nor rank.
\<close>

theorem card_type_setter_clears:
  "t \<noteq> STANDARD \<Longrightarrow>
     card_type_setter (CardType t) self =
       (Inr (), self\<lparr>attr_card_type := Some (CardType t), attr_suit := Some PyNone,
                     attr_rank := Some PyNone\<rparr>)"
  by (cases t) (simp_all add: card_type_setter_eq allowed_defs)

theorem card_type_setter_clears_witness:
  "JOKER \<noteq> STANDARD
   \<and> card_type_setter (CardType JOKER)
        \<lparr>attr_card_type = Some (CardType STANDARD), attr_suit = Some (Suit HEART),
         attr_rank = Some (Rank ACE)\<rparr> =
       (Inr (), \<lparr>attr_card_type = Some (CardType JOKER), attr_suit = Some PyNone,
                 attr_rank = Some PyNone\<rparr>)"
proof -
  have h: "JOKER \<noteq> STANDARD" by simp
  from card_type_setter_clears [OF h, of "\<lparr>attr_card_type = Some (CardType STANDARD),
      attr_suit = Some (Suit HEART), attr_rank = Some (Rank ACE)\<rparr>"] h
  show ?thesis by simp
qed

text \<open>
  Claim C7: for a value that is none of the three card types, construction fails with
  InvalidAttribute, and so does setting the card type of an existing card (which is left
  as it was). The string "standard" is such a value.
\<close>

theorem unrecognized_card_type:
  assumes "\<forall>t. v \<noteq> CardType t"
  shows "Card_new s r v = Inl (ValueError Invalid_card_type)
       \<and> card_type_setter v self = (Inl (ValueError Invalid_card_type), self)
       \<and> InvalidAttribute (ValueError Invalid_card_type)"
proof -
  from assms have "v \<notin> set ALLOWED_CARD_TYPES" by (auto simp: allowed_card_type_iff)
  then show ?thesis
    by (simp add: Card_new_def Card_init_def seq_def bind_stmt_def card_type_setter_eq)
qed

theorem unrecognized_card_type_witness:
  "(\<forall>t. PyStr ''standard'' \<noteq> CardType t)
   \<and> Card_new (Suit HEART) (Rank ACE) (PyStr ''standard'') = Inl (ValueError Invalid_card_type)
   \<and> card_type_setter (PyStr ''standard'')
        \<lparr>attr_card_type = Some (CardType STANDARD), attr_suit = Some (Suit HEART),
         attr_rank = Some (Rank ACE)\<rparr> =
       (Inl (ValueError Invalid_card_type),
        \<lparr>attr_card_type = Some (CardType STANDARD), attr_suit = Some (Suit HEART),
         attr_rank = Some (Rank ACE)\<rparr>)"
proof -
  have h: "\<forall>t. PyStr ''standard'' \<noteq> CardType t" by simp
  from unrecognized_card_type [OF h] h show ?thesis by blast
qed

text \<open>
  Claim C8: constructing a STANDARD card fails with InvalidAttribute when the suit or the
  rank is \<open>None\<close>, and constructing a JOKER or a GUARANTEE card fails with InvalidAttribute
  when the suit or the rank is not \<open>None\<close>.
\<close>

theorem Card_new_mismatch_fails:
  "((s = PyNone \<or> r = PyNone) \<longrightarrow>
      (\<exists>e. Card_new s r (CardType STANDARD) = Inl e \<and> InvalidAttribute e))
   \<and> ((s \<noteq> PyNone \<or> r \<noteq> PyNone) \<longrightarrow>
      (\<exists>e. Card_new s r (CardType JOKER) = Inl e \<and> InvalidAttribute e)
      \<and> (\<exists>e. Card_new s r (CardType GUARANTEE) = Inl e \<and> InvalidAttribute e))"
proof -
  have std: "\<exists>e. Card_new s r (CardType STANDARD) = Inl e \<and> InvalidAttribute e"
    if "s = PyNone \<or> r = PyNone"
  proof (cases "Card_new s r (CardType STANDARD)")
    case (Inl e)
    then show ?thesis using Card_new_Inl by blast
  next
    case (Inr c)
    with that show ?thesis by (auto simp: Card_new_Inr allowed_defs)
  qed
  have other: "\<exists>e. Card_new s r (CardType t) = Inl e \<and> InvalidAttribute e"
    if "t \<noteq> STANDARD" for t
  proof (cases "Card_new s r (CardType t)")
    case (Inl e)
    then show ?thesis using Card_new_Inl by blast
  next
    case (Inr c)
    with that show ?thesis by (simp add: Card_new_Inr)
  qed
  from std other [of JOKER] other [of GUARANTEE] show ?thesis by simp
qed

theorem Card_new_mismatch_fails_witness:
  "Card_new PyNone (Rank ACE) (CardType STANDARD) = Inl (ValueError Suit_missing)
   \<and> Card_new (Suit HEART) PyNone (CardType JOKER) = Inl (ValueError Suit_not_None)
   \<and> Card_new (Suit HEART) PyNone (CardType GUARANTEE) = Inl (ValueError Suit_not_None)
   \<and> (\<exists>e. Card_new PyNone (Rank ACE) (CardType STANDARD) = Inl e \<and> InvalidAttribute e)
   \<and> (\<exists>e. Card_new (Suit HEART) PyNone (CardType JOKER) = Inl e \<and> InvalidAttribute e)
   \<and> (\<exists>e. Card_new (Suit HEART) PyNone (CardType GUARANTEE) = Inl e \<and> InvalidAttribute e)"
proof -
  have a: "PyNone = PyNone \<or> Rank ACE = PyNone" by simp
  have b: "Suit HEART \<noteq> PyNone \<or> PyNone \<noteq> PyNone" by simp
  have c: "Card_new PyNone (Rank ACE) (CardType STANDARD) = Inl (ValueError Suit_missing)"
    "Card_new (Suit HEART) PyNone (CardType JOKER) = Inl (ValueError Suit_not_None)"
    "Card_new (Suit HEART) PyNone (CardType GUARANTEE) = Inl (ValueError Suit_not_None)"
    by (simp_all add: Card_new_def Card_init_def seq_def bind_stmt_def card_type_setter_eq
          fresh_def suit_setter_eq allowed_defs)
  from Card_new_mismatch_fails [of PyNone "Rank ACE"] a
  have d: "\<exists>e. Card_new PyNone (Rank ACE) (CardType STANDARD) = Inl e \<and> InvalidAttribute e"
    by blast
  from Card_new_mismatch_fails [of "Suit HEART" PyNone] b
  have e: "(\<exists>e. Card_new (Suit HEART) PyNone (CardType JOKER) = Inl e \<and> InvalidAttribute e)
      \<and> (\<exists>e. Card_new (Suit HEART) PyNone (CardType GUARANTEE) = Inl e \<and> InvalidAttribute e)"
    by blast
  from c d e show ?thesis by blast
qed

text \<open>
  Claim C9: a setter that raises leaves the three attributes of the card as they were, for
  every state of the card and every value.
\<close>

theorem setters_atomic:
  "(fst (card_type_setter v self) = Inl e \<longrightarrow> snd (card_type_setter v self) = self)
   \<and> (fst (suit_setter v self) = Inl e \<longrightarrow> snd (suit_setter v self) = self)
   \<and> (fst (rank_setter v self) = Inl e \<longrightarrow> snd (rank_setter v self) = self)"
proof (cases "attr_card_type self")
  case None
  then show ?thesis
    by (simp add: card_type_setter_eq suit_setter_unset rank_setter_unset)
next
  case (Some ct)
  then show ?thesis
    by (simp add: card_type_setter_eq suit_setter_eq rank_setter_eq)
qed

theorem setters_atomic_witness:
  "fst (card_type_setter (PyStr ''joker'')
        \<lparr>attr_card_type = Some (CardType STANDARD), attr_suit = Some (Suit HEART),
         attr_rank = Some (Rank ACE)\<rparr>) = Inl (ValueError Invalid_card_type)
   \<and> snd (card_type_setter (PyStr ''joker'')
        \<lparr>attr_card_type = Some (CardType STANDARD), attr_suit = Some (Suit HEART),
         attr_rank = Some (Rank ACE)\<rparr>) =
        \<lparr>attr_card_type = Some (CardType STANDARD), attr_suit = Some (Suit HEART),
         attr_rank = Some (Rank ACE)\<rparr>
   \<and> fst (suit_setter (PyStr ''heart'')
        \<lparr>attr_card_type = Some (CardType STANDARD), attr_suit = Some (Suit HEART),
         attr_rank = Some (Rank ACE)\<rparr>) = Inl (ValueError Invalid_suit)
   \<and> snd (suit_setter (PyStr ''heart'')
        \<lparr>attr_card_type = Some (CardType STANDARD), attr_suit = Some (Suit HEART),
         attr_rank = Some (Rank ACE)\<rparr>) =
        \<lparr>attr_card_type = Some (CardType STANDARD), attr_suit = Some (Suit HEART),
         attr_rank = Some (Rank ACE)\<rparr>
   \<and> fst (rank_setter (PyInt 1)
        \<lparr>attr_card_type = Some (CardType STANDARD), attr_suit = Some (Suit HEART),
         attr_rank = Some (Rank ACE)\<rparr>) = Inl (ValueError Invalid_rank)
   \<and> snd (rank_setter (PyInt 1)
        \<lparr>attr_card_type = Some (CardType STANDARD), attr_suit = Some (Suit HEART),
         attr_rank = Some (Rank ACE)\<rparr>) =
        \<lparr>attr_card_type = Some (CardType STANDARD), attr_suit = Some (Suit HEART),
         attr_rank = Some (Rank ACE)\<rparr>"
proof -
  let ?c = "\<lparr>attr_card_type = Some (CardType STANDARD), attr_suit = Some (Suit HEART),
         attr_rank = Some (Rank ACE)\<rparr>"
  have a: "fst (card_type_setter (PyStr ''joker'') ?c) = Inl (ValueError Invalid_card_type)"
    by (simp add: card_type_setter_eq allowed_defs)
  have b: "fst (suit_setter (PyStr ''heart'') ?c) = Inl (ValueError Invalid_suit)"
    by (simp add: suit_setter_eq allowed_defs)
  have c: "fst (rank_setter (PyInt 1) ?c) = Inl (ValueError Invalid_rank)"
    by (simp add: rank_setter_eq allowed_defs)
  from setters_atomic [of "PyStr ''joker''" ?c "ValueError Invalid_card_type"] a
  have a': "snd (card_type_setter (PyStr ''joker'') ?c) = ?c" by blast
  from setters_atomic [of "PyStr ''heart''" ?c "ValueError Invalid_suit"] b
  have b': "snd (suit_setter (PyStr ''heart'') ?c) = ?c" by blast
  from setters_atomic [of "PyInt 1" ?c "ValueError Invalid_rank"] c
  have c': "snd (rank_setter (PyInt 1) ?c) = ?c" by blast
  from a a' b b' c c' show ?thesis by blast
qed

text \<open>
  Claim C10: a successful suit setter changes the suit only, a successful rank setter the
  rank only, and setting the card type to STANDARD succeeds and changes the card type only.
\<close>

theorem setter_frames:
  "(fst (suit_setter v self) = Inr u \<longrightarrow>
      snd (suit_setter v self) = self\<lparr>attr_suit := Some v\<rparr>
      \<and> attr_card_type (snd (suit_setter v self)) = attr_card_type self
      \<and> attr_rank (snd (suit_setter v self)) = attr_rank self)
   \<and> (fst (rank_setter v self) = Inr u \<longrightarrow>
      snd (rank_setter v self) = self\<lparr>attr_rank := Some v\<rparr>
      \<and> attr_card_type (snd (rank_setter v self)) = attr_card_type self
      \<and> attr_suit (snd (rank_setter v self)) = attr_suit self)
   \<and> card_type_setter (CardType STANDARD) self =
        (Inr (), self\<lparr>attr_card_type := Some (CardType STANDARD)\<rparr>)
   \<and> attr_suit (snd (card_type_setter (CardType STANDARD) self)) = attr_suit self
   \<and> attr_rank (snd (card_type_setter (CardType STANDARD) self)) = attr_rank self"
proof (cases "attr_card_type self")
  case None
  then show ?thesis
    by (simp add: card_type_setter_eq suit_setter_unset rank_setter_unset allowed_defs)
next
  case (Some ct)
  then show ?thesis
    by (simp add: card_type_setter_eq suit_setter_eq rank_setter_eq allowed_defs)
qed

theorem setter_frames_witness:
  "fst (suit_setter (Suit CLUB)
        \<lparr>attr_card_type = Some (CardType STANDARD), attr_suit = Some (Suit HEART),
         attr_rank = Some (Rank ACE)\<rparr>) = Inr ()
   \<and> snd (suit_setter (Suit CLUB)
        \<lparr>attr_card_type = Some (CardType STANDARD), attr_suit = Some (Suit HEART),
         attr_rank = Some (Rank ACE)\<rparr>) =
        \<lparr>attr_card_type = Some (CardType STANDARD), attr_suit = Some (Suit CLUB),
         attr_rank = Some (Rank ACE)\<rparr>
   \<and> fst (rank_setter (Rank TWO)
        \<lparr>attr_card_type = Some (CardType STANDARD), attr_suit = Some (Suit HEART),
         attr_rank = Some (Rank ACE)\<rparr>) = Inr ()
   \<and> snd (rank_setter (Rank TWO)
        \<lparr>attr_card_type = Some (CardType STANDARD), attr_suit = Some (Suit HEART),
         attr_rank = Some (Rank ACE)\<rparr>) =
        \<lparr>attr_card_type = Some (CardType STANDARD), attr_suit = Some (Suit HEART),
         attr_rank = Some (Rank TWO)\<rparr>"
proof -
  let ?c = "\<lparr>attr_card_type = Some (CardType STANDARD), attr_suit = Some (Suit HEART),
         attr_rank = Some (Rank ACE)\<rparr>"
  have a: "fst (suit_setter (Suit CLUB) ?c) = Inr ()"
    by (simp add: suit_setter_eq allowed_defs)
  have b: "fst (rank_setter (Rank TWO) ?c) = Inr ()"
    by (simp add: rank_setter_eq allowed_defs)
  from setter_frames [of "Suit CLUB" ?c "()"] a
  have a': "snd (suit_setter (Suit CLUB) ?c) = ?c\<lparr>attr_suit := Some (Suit CLUB)\<rparr>" by blast
  from setter_frames [of "Rank TWO" ?c "()"] b
  have b': "snd (rank_setter (Rank TWO) ?c) = ?c\<lparr>attr_rank := Some (Rank TWO)\<rparr>" by blast
  from a a' b b' show ?thesis by simp
qed

end
